theory Spec2Isabelle
  imports Complex_Main "HOL-Library.Sublist" "HOL-Library.AList"
begin

section \<open>Python values and exceptions\<close>

text \<open>
  The exceptions the modelled code can let escape.  \<open>AttributeError\<close> and
  \<open>TypeError\<close> come from calling \<open>.get\<close>, \<open>.append\<close> or slicing on a value of the
  wrong Python type, \<open>JSONDecodeError\<close> from \<open>resp.json()\<close> on a body that is not
  JSON, \<open>FileNotFoundError\<close> from opening a file for writing in a directory that
  does not exist.  An exception raised inside an external library (the embedding
  model, the vector index, the session service) is \<open>External msg\<close>, where \<open>msg\<close>
  is what \<open>str(e)\<close> gives.  \<open>NonException msg\<close> is an exception that is not of
  the class \<open>Exception\<close> (\<open>asyncio.CancelledError\<close>, \<open>KeyboardInterrupt\<close>,
  \<open>SystemExit\<close>), which a clause \<open>except Exception\<close> does not catch.
\<close>

datatype py_error =
    AttributeError
  | TypeError
  | JSONDecodeError
  | FileNotFoundError
  | External string
  | NonException string

section \<open>tools_adk.py: knowledge-base search\<close>

text \<open>
  The vector index is an external library object.  The model keeps the two things
  \<open>kb_search\<close> uses: the attribute \<open>ntotal\<close> and the method \<open>search\<close>.  An
  index is given by \<open>neighbours\<close>: for a query vector, the stored vectors it
  finds, nearest first, each as its distance and its identifier.  \<open>'v\<close> is the
  type of embedding vectors.
\<close>

record 'v faiss_index =
  ntotal :: nat
  neighbours :: "'v \<Rightarrow> (real \<times> int) list"

text \<open>The largest 32-bit float, the distance of a missing neighbour.\<close>

definition float_max :: real where
  "float_max = 340282346638528859811704183484516925440"

text \<open>
  \<open>index_search ix q_vec k\<close> stands for \<open>kb_index.search(q_vec, k)\<close> and gives the
  rows \<open>(distances[0], indices[0])\<close> for the single query vector.  The library
  asserts \<open>k > 0\<close>, so the call raises for \<open>k \<le> 0\<close> (an \<open>AssertionError\<close> without
  message); otherwise each row has exactly \<open>k\<close> entries, the \<open>k\<close> nearest
  neighbours followed, when there are fewer, by entries with the identifier
  \<open>-1\<close>.
\<close>

definition index_search ::
  "'v faiss_index \<Rightarrow> 'v \<Rightarrow> int \<Rightarrow> string + (real list \<times> int list)" where
  "index_search ix q_vec k =
     (if k \<le> 0 then Inl []
      else
        (let found = take (nat k) (neighbours ix q_vec);
             row = found @ replicate (nat k - length found) (float_max, - 1)
         in Inr (map fst row, map snd row)))"

text \<open>One entry of \<open>results\<close>: the dict with keys \<open>text\<close>, \<open>score\<close>, \<open>index\<close>.\<close>

record kb_hit =
  hit_text :: string
  hit_score :: real
  hit_index :: int

text \<open>
  The dict \<open>kb_search\<close> returns.  The key \<open>message\<close> is present only on the
  early return, hence the option.
\<close>

record kb_result =
  kb_query :: string
  kb_results :: "kb_hit list"
  kb_message :: "string option"

text \<open>
  The loop \<open>for dist, idx in zip(distances[0], indices[0])\<close>: a pair whose index is
  negative or not below \<open>len(kb_texts)\<close> is skipped by \<open>continue\<close>.  The loop
  variable \<open>dist\<close> is written \<open>dst\<close> (\<open>dist\<close> is the metric of HOL).
\<close>

fun collect_hits :: "string list \<Rightarrow> (real \<times> int) list \<Rightarrow> kb_hit list" where
  "collect_hits kb_texts [] = []"
| "collect_hits kb_texts ((dst, idx) # rest) =
     (if idx < 0 \<or> idx \<ge> int (length kb_texts) then collect_hits kb_texts rest
      else \<lparr>hit_text = kb_texts ! nat idx, hit_score = dst, hit_index = idx\<rparr>
             # collect_hits kb_texts rest)"

text \<open>
  \<open>kb_search(query, top_k)\<close>.  The module globals \<open>kb_index\<close> (which may be
  \<open>None\<close>) and \<open>kb_texts\<close>, and the function \<open>embed_text\<close> built on the external
  embedding model, are parameters.
\<close>

definition kb_search ::
  "(string \<Rightarrow> string + 'v) \<Rightarrow> 'v faiss_index option \<Rightarrow> string list \<Rightarrow>
   string \<Rightarrow> int \<Rightarrow> py_error + kb_result" where
  "kb_search embed_text kb_index kb_texts query top_k =
     (case kb_index of
        None \<Rightarrow>
          Inr \<lparr>kb_query = query, kb_results = [],
               kb_message = Some ''Knowledge base is empty.''\<rparr>
      | Some ix \<Rightarrow>
          if ntotal ix = 0 \<or> kb_texts = [] then
            Inr \<lparr>kb_query = query, kb_results = [],
                 kb_message = Some ''Knowledge base is empty.''\<rparr>
          else
            (case embed_text query of
               Inl e \<Rightarrow> Inl (External e)
             | Inr q_vec \<Rightarrow>
                 (case index_search ix q_vec top_k of
                    Inl e \<Rightarrow> Inl (External e)
                  | Inr (distances, indices) \<Rightarrow>
                      Inr \<lparr>kb_query = query,
                           kb_results = collect_hits kb_texts (zip distances indices),
                           kb_message = None\<rparr>)))"

section \<open>JSON documents as Python values\<close>

text \<open>
  What \<open>json.load\<close> and \<open>resp.json()\<close> hand to the code: \<open>None\<close>, booleans,
  numbers, strings, lists and dicts.  A dict is an association list in insertion
  order; \<open>map_of\<close> reads a key and \<open>AList.update\<close> is the assignment
  \<open>d[k] = v\<close> (in place when the key exists, at the end otherwise).
\<close>

datatype json =
    JNull
  | JBool bool
  | JInt int
  | JFloat real
  | JStr string
  | JArr "json list"
  | JObj "(string \<times> json) list"

text \<open>
  \<open>value.get(key, default)\<close>: only a dict has the method; on any other value the
  attribute lookup raises \<open>AttributeError\<close>.
\<close>

definition py_get :: "json \<Rightarrow> string \<Rightarrow> json \<Rightarrow> py_error + json" where
  "py_get data k dflt =
     (case data of
        JObj kvs \<Rightarrow> Inr (case map_of kvs k of None \<Rightarrow> dflt | Some v \<Rightarrow> v)
      | _ \<Rightarrow> Inl AttributeError)"

text \<open>
  The slice \<open>xs[:n]\<close> of a sequence: the first \<open>n\<close> elements when \<open>n\<close> is not
  negative, all but the last \<open>-n\<close> elements otherwise.
\<close>

definition py_slice_to :: "int \<Rightarrow> 'a list \<Rightarrow> 'a list" where
  "py_slice_to n xs =
     (if 0 \<le> n then take (nat n) xs else take (length xs - nat (- n)) xs)"

text \<open>\<open>str(n)\<close> for an integer, as the f-strings of the code format it.\<close>

fun str_nat :: "nat \<Rightarrow> string" where
  "str_nat n =
     (if n < 10 then [char_of (48 + n)]
      else str_nat (n div 10) @ [char_of (48 + n mod 10)])"

declare str_nat.simps [simp del]

definition str_int :: "int \<Rightarrow> string" where
  "str_int i = (if i < 0 then CHR ''-'' # str_nat (nat (- i)) else str_nat (nat i))"

section \<open>tools_adk.py: the preference store\<close>

text \<open>
  The state of the file at \<open>PREFS_PATH\<close> as \<open>open\<close> and \<open>json.load\<close> see it:
  the directory \<open>data\<close> is missing (\<open>open\<close> raises for reading and for
  writing), the directory is there without the file (\<open>open\<close> raises for
  reading), the file holds a text that is not JSON (\<open>json.load\<close> raises), or the
  file holds a JSON document.  \<open>json.dump\<close> writes a document that \<open>json.load\<close>
  reads back unchanged.
\<close>

datatype prefs_file = NoDir | NoFile | Corrupt | Doc json

text \<open>The body of \<open>with open(PREFS_PATH, "r") as f: data = json.load(f)\<close>;
  \<open>None\<close> when it raises.\<close>

definition read_prefs :: "prefs_file \<Rightarrow> json option" where
  "read_prefs f =
     (case f of NoDir \<Rightarrow> None | NoFile \<Rightarrow> None | Corrupt \<Rightarrow> None | Doc data \<Rightarrow> Some data)"

text \<open>
  The body of \<open>with open(PREFS_PATH, "w") as f: json.dump(data, f, ...)\<close>: the
  file afterwards, or the exception of \<open>open\<close> when the directory is missing.
\<close>

definition write_prefs :: "json \<Rightarrow> prefs_file \<Rightarrow> py_error + prefs_file" where
  "write_prefs data f = (case f of NoDir \<Rightarrow> Inl FileNotFoundError | _ \<Rightarrow> Inr (Doc data))"

text \<open>
  Module start-up: when the file does not exist the directory is created if
  need be and the file is written holding \<open>{"preferences": []}\<close>.
\<close>

definition init_prefs :: "prefs_file \<Rightarrow> prefs_file" where
  "init_prefs f =
     (case f of
        NoDir \<Rightarrow> Doc (JObj [(''preferences'', JArr [])])
      | NoFile \<Rightarrow> Doc (JObj [(''preferences'', JArr [])])
      | _ \<Rightarrow> f)"

record save_result =
  status :: string
  saved_preference :: string
  total_preferences :: nat

text \<open>
  \<open>save_preference(preference)\<close>.  Only the read is inside \<open>try\<close>: on a document
  that is not a dict \<open>data.get\<close> raises, on a \<open>preferences\<close> entry that is not a
  list \<open>prefs.append\<close> raises, and the write raises when the directory is
  missing; all three leave the file as it was.  The result pairs what the call
  returns or raises with the file afterwards.
\<close>

definition save_preference ::
  "string \<Rightarrow> prefs_file \<Rightarrow> (py_error + save_result) \<times> prefs_file" where
  "save_preference preference f =
     (let data = (case read_prefs f of
                    None \<Rightarrow> JObj [(''preferences'', JArr [])]
                  | Some d \<Rightarrow> d)
      in case py_get data ''preferences'' (JArr []) of
           Inl e \<Rightarrow> (Inl e, f)
         | Inr (JArr ps) \<Rightarrow>
             (let prefs = ps @ [JStr preference] in
              case data of
                JObj kvs \<Rightarrow>
                  (case write_prefs (JObj (AList.update ''preferences'' (JArr prefs) kvs)) f of
                     Inl e \<Rightarrow> (Inl e, f)
                   | Inr f' \<Rightarrow>
                       (Inr \<lparr>status = ''ok'', saved_preference = preference,
                             total_preferences = length prefs\<rparr>, f'))
              | _ \<Rightarrow> (Inl TypeError, f))
         | Inr _ \<Rightarrow> (Inl AttributeError, f))"

text \<open>
  \<open>load_preferences()\<close>.  The whole body is inside \<open>try\<close>, so the
  \<open>AttributeError\<close> of \<open>data.get\<close> on a document that is not a dict is caught as
  well.  What is returned is the \<open>preferences\<close> entry as it is stored.
\<close>

definition load_preferences :: "prefs_file \<Rightarrow> json" where
  "load_preferences f =
     (case read_prefs f of
        None \<Rightarrow> JArr []
      | Some data \<Rightarrow>
          (case py_get data ''preferences'' (JArr []) of
             Inl e \<Rightarrow> JArr []
           | Inr prefs \<Rightarrow> prefs))"

text \<open>
  Calls of \<open>save_preference\<close> one after the other, each on the file the previous one
  left; a call that raises does not stop the ones after it (each is its own tool
  call).
\<close>

fun save_all ::
  "string list \<Rightarrow> prefs_file \<Rightarrow> (py_error + save_result) list \<times> prefs_file" where
  "save_all [] f = ([], f)"
| "save_all (x # xs) f =
     (case save_preference x f of
        (r, f') \<Rightarrow> (case save_all xs f' of (rs, f'') \<Rightarrow> (r # rs, f'')))"

text \<open>
  The list of preferences a store holds for \<open>save_preference\<close>: empty when the
  file is missing or unreadable or has no \<open>preferences\<close> entry, the entry when it
  is a list, and \<open>None\<close> for the stores on which \<open>save_preference\<close> raises (the
  directory is missing, the document is not a dict, or its \<open>preferences\<close> entry
  is not a list).
\<close>

definition stored_prefs :: "prefs_file \<Rightarrow> json list option" where
  "stored_prefs f =
     (case f of
        NoDir \<Rightarrow> None
      | NoFile \<Rightarrow> Some []
      | Corrupt \<Rightarrow> Some []
      | Doc (JObj kvs) \<Rightarrow>
          (case map_of kvs ''preferences'' of
             None \<Rightarrow> Some []
           | Some (JArr ps) \<Rightarrow> Some ps
           | Some _ \<Rightarrow> None)
      | Doc _ \<Rightarrow> None)"

section \<open>tools_adk.py: the weather stub\<close>

record weather =
  location :: string
  date :: string
  summary :: string
  temperature_celsius :: real
  precipitation_chance :: real
  weather_source :: string

text \<open>\<open>get_weather(location, date="today")\<close>; the two numbers are the decimal
  literals \<open>24.0\<close> and \<open>0.2\<close> of the source.\<close>

definition get_weather :: "string \<Rightarrow> string \<Rightarrow> weather" where
  "get_weather loc dt =
     \<lparr>location = loc, date = dt,
      summary = ''Partly cloudy with mild temperatures.'',
      temperature_celsius = 24.0,
      precipitation_chance = 0.2,
      weather_source = ''mock_weather_service''\<rparr>"

section \<open>tools_adk.py: web search and flight-price search\<close>

text \<open>
  The process environment is a map from names to values.  \<open>load_dotenv()\<close> adds
  the entries of the \<open>.env\<close> file for the names the environment does not have
  yet, so a variable that is already set wins.  Loading twice changes nothing
  more, which is why the environment is not threaded through the calls.
\<close>

type_synonym environ = "string \<rightharpoonup> string"

definition load_dotenv :: "environ \<Rightarrow> environ \<Rightarrow> environ" where
  "load_dotenv dotenv env = dotenv ++ env"

text \<open>\<open>not v\<close> for the result of \<open>os.getenv\<close>: unset or the empty string.\<close>

definition py_not :: "string option \<Rightarrow> bool" where
  "py_not v = (case v of None \<Rightarrow> True | Some s \<Rightarrow> s = [])"

text \<open>
  The outbound call \<open>requests.get(url, params=params, timeout=10)\<close> is a
  parameter of the model.  It gives the response, or the message of the exception
  it raised.  Of a response the code reads \<open>status_code\<close>, \<open>text\<close> and \<open>json()\<close>;
  \<open>resp_json\<close> is \<open>None\<close> when \<open>json()\<close> raises.
\<close>

record http_params =
  p_key :: string
  p_cx :: string
  p_q :: string
  p_num :: int

record response =
  status_code :: int
  resp_text :: string
  resp_json :: "json option"

type_synonym requests_get = "string \<Rightarrow> http_params \<Rightarrow> nat \<Rightarrow> string + response"

record search_item =
  title :: json
  snippet :: json
  url :: json

text \<open>
  The loop over \<open>items[:max_results]\<close>.  \<open>item.get\<close> raises on an item that is
  not a dict.
\<close>

fun collect_items :: "json list \<Rightarrow> py_error + search_item list" where
  "collect_items [] = Inr []"
| "collect_items (item # rest) =
     (case item of
        JObj kvs \<Rightarrow>
          (case collect_items rest of
             Inl e \<Rightarrow> Inl e
           | Inr results \<Rightarrow>
               Inr (\<lparr>title = (case map_of kvs ''title'' of None \<Rightarrow> JStr [] | Some v \<Rightarrow> v),
                     snippet = (case map_of kvs ''snippet'' of None \<Rightarrow> JStr [] | Some v \<Rightarrow> v),
                     url = (case map_of kvs ''link'' of None \<Rightarrow> JStr [] | Some v \<Rightarrow> v)\<rparr>
                    # results))
      | _ \<Rightarrow> Inl AttributeError)"

text \<open>
  \<open>items[:max_results]\<close> as the sequence the loop runs over: a list or a string
  can be sliced (a string gives its one-character strings), a dict raises on a
  slice key (\<open>TypeError\<close>, \<open>KeyError\<close> from Python 3.12 on), any other value is
  not subscriptable.
\<close>

definition slice_items :: "json \<Rightarrow> int \<Rightarrow> py_error + json list" where
  "slice_items items max_results =
     (case items of
        JArr xs \<Rightarrow> Inr (py_slice_to max_results xs)
      | JStr s \<Rightarrow> Inr (map (\<lambda>c. JStr [c]) (py_slice_to max_results s))
      | _ \<Rightarrow> Inl TypeError)"

text \<open>The code after the status check, the same text in both functions.\<close>

definition read_items :: "response \<Rightarrow> int \<Rightarrow> py_error + search_item list" where
  "read_items resp max_results =
     (case resp_json resp of
        None \<Rightarrow> Inl JSONDecodeError
      | Some data \<Rightarrow>
          (case py_get data ''items'' (JArr []) of
             Inl e \<Rightarrow> Inl e
           | Inr items \<Rightarrow>
               (case slice_items items max_results of
                  Inl e \<Rightarrow> Inl e
                | Inr sl \<Rightarrow> collect_items sl)))"

record web_result =
  ws_query :: string
  ws_results :: "search_item list"
  ws_error :: "string option"
  ws_source :: string

record flight_result =
  fl_origin :: string
  fl_destination :: string
  fl_date :: string
  fl_results :: "search_item list"
  fl_error :: "string option"
  fl_source :: string

definition search_url :: string where
  "search_url = ''https://www.googleapis.com/customsearch/v1''"

text \<open>\<open>web_search(query, max_results=5)\<close>.\<close>

definition web_search ::
  "environ \<Rightarrow> environ \<Rightarrow> requests_get \<Rightarrow> string \<Rightarrow> int \<Rightarrow> py_error + web_result" where
  "web_search dotenv env get query max_results =
     (let env' = load_dotenv dotenv env;
          api_key = env' ''CUSTOM_SEARCH_API_KEY'';
          cx = env' ''CUSTOM_SEARCH_CX''
      in if py_not api_key \<or> py_not cx then
           Inr \<lparr>ws_query = query, ws_results = [],
                ws_error = Some ''Missing CUSTOM_SEARCH_API_KEY or CUSTOM_SEARCH_CX in environment.'',
                ws_source = ''google_custom_search''\<rparr>
         else
           (case get search_url
                   \<lparr>p_key = the api_key, p_cx = the cx, p_q = query, p_num = max_results\<rparr>
                   10 of
              Inl e \<Rightarrow>
                Inr \<lparr>ws_query = query, ws_results = [],
                     ws_error = Some (''Request error: '' @ e),
                     ws_source = ''google_custom_search''\<rparr>
            | Inr resp \<Rightarrow>
                if status_code resp \<noteq> 200 then
                  Inr \<lparr>ws_query = query, ws_results = [],
                       ws_error = Some (''HTTP '' @ str_int (status_code resp) @ '': ''
                                        @ resp_text resp),
                       ws_source = ''google_custom_search''\<rparr>
                else
                  (case read_items resp max_results of
                     Inl e \<Rightarrow> Inl e
                   | Inr results \<Rightarrow>
                       Inr \<lparr>ws_query = query, ws_results = results,
                            ws_error = None,
                            ws_source = ''google_custom_search''\<rparr>)))"

text \<open>The f-string \<open>f"{origin} to {destination} flight {date} price"\<close>.\<close>

definition flight_query :: "string \<Rightarrow> string \<Rightarrow> string \<Rightarrow> string" where
  "flight_query origin destination dt =
     origin @ '' to '' @ destination @ '' flight '' @ dt @ '' price''"

text \<open>\<open>search_flight_price(origin, destination, date, max_results=10)\<close>.\<close>

definition search_flight_price ::
  "environ \<Rightarrow> environ \<Rightarrow> requests_get \<Rightarrow> string \<Rightarrow> string \<Rightarrow> string \<Rightarrow> int \<Rightarrow>
   py_error + flight_result" where
  "search_flight_price dotenv env get origin destination dt max_results =
     (let env' = load_dotenv dotenv env;
          api_key = env' ''CUSTOM_SEARCH_API_KEY'';
          cx = env' ''CUSTOM_SEARCH_CX''
      in if py_not api_key \<or> py_not cx then
           Inr \<lparr>fl_origin = origin, fl_destination = destination, fl_date = dt,
                fl_results = [],
                fl_error = Some ''Missing CUSTOM_SEARCH_API_KEY or CUSTOM_SEARCH_CX in environment.'',
                fl_source = ''google_custom_search''\<rparr>
         else
           (let query = flight_query origin destination dt in
            case get search_url
                   \<lparr>p_key = the api_key, p_cx = the cx, p_q = query, p_num = max_results\<rparr>
                   10 of
              Inl e \<Rightarrow>
                Inr \<lparr>fl_origin = origin, fl_destination = destination, fl_date = dt,
                     fl_results = [],
                     fl_error = Some (''Request error: '' @ e),
                     fl_source = ''google_custom_search''\<rparr>
            | Inr resp \<Rightarrow>
                if status_code resp \<noteq> 200 then
                  Inr \<lparr>fl_origin = origin, fl_destination = destination, fl_date = dt,
                       fl_results = [],
                       fl_error = Some (''HTTP '' @ str_int (status_code resp) @ '': ''
                                        @ resp_text resp),
                       fl_source = ''google_custom_search''\<rparr>
                else
                  (case read_items resp max_results of
                     Inl e \<Rightarrow> Inl e
                   | Inr results \<Rightarrow>
                       Inr \<lparr>fl_origin = origin, fl_destination = destination, fl_date = dt,
                            fl_results = results,
                            fl_error = None,
                            fl_source = ''google_custom_search''\<rparr>)))"

text \<open>What the two results have in common: the results list, the error and the
  source.\<close>

definition web_common :: "web_result \<Rightarrow> search_item list \<times> string option \<times> string" where
  "web_common r = (ws_results r, ws_error r, ws_source r)"

definition flight_common :: "flight_result \<Rightarrow> search_item list \<times> string option \<times> string" where
  "flight_common r = (fl_results r, fl_error r, fl_source r)"

section \<open>main_adk.py: sessions\<close>

text \<open>
  The server's state: the module-level dict \<open>user_sessions\<close> and the state of the
  runner's session service, an external object of type \<open>'svc\<close>.
  \<open>create_session svc app_name user_id\<close> stands for
  \<open>runner.session_service.create_session(app_name=..., user_id=...)\<close>: it gives
  the identifier of the new session and the service afterwards, or the message of
  the exception it raised.
\<close>

record 'svc server_state =
  user_sessions :: "string \<rightharpoonup> string"
  session_service :: 'svc

type_synonym 'svc create_session = "'svc \<Rightarrow> string \<Rightarrow> string \<Rightarrow> string + (string \<times> 'svc)"

definition app_name :: string where
  "app_name = ''travel_agent_app''"

text \<open>
  \<open>get_or_create_session_id(user_id)\<close>, run without another request in between
  the test \<open>user_id in user_sessions\<close> and the assignment.
\<close>

definition get_or_create_session_id ::
  "'svc create_session \<Rightarrow> string \<Rightarrow> 'svc server_state \<Rightarrow>
   (py_error + string) \<times> 'svc server_state" where
  "get_or_create_session_id create_session user_id st =
     (case user_sessions st user_id of
        Some session_id \<Rightarrow> (Inr session_id, st)
      | None \<Rightarrow>
          (case create_session (session_service st) app_name user_id of
             Inl e \<Rightarrow> (Inl (External e), st)
           | Inr (session_id, svc') \<Rightarrow>
               (Inr session_id,
                st\<lparr>user_sessions := (user_sessions st)(user_id \<mapsto> session_id),
                   session_service := svc'\<rparr>)))"

text \<open>Requests of the users \<open>uids\<close>, one after the other; only the state matters
  here.\<close>

fun run_requests ::
  "'svc create_session \<Rightarrow> string list \<Rightarrow> 'svc server_state \<Rightarrow> 'svc server_state" where
  "run_requests create_session [] st = st"
| "run_requests create_session (u # us) st =
     run_requests create_session us (snd (get_or_create_session_id create_session u st))"

section \<open>main_adk.py: the chat endpoint\<close>

text \<open>
  The events of one generation turn.  A part may have no \<open>text\<close>, a content may
  have no \<open>parts\<close>, an event may have no \<open>content\<close>.
\<close>

datatype part = Part (part_text: "string option")

datatype content = Content (role: "string option") (parts: "part list option")

datatype event = Event (content: "content option")

text \<open>
  The texts one event adds to \<open>text_parts\<close>: those of its parts whose \<open>text\<close> is
  neither \<open>None\<close> nor empty.
\<close>

definition event_texts :: "event \<Rightarrow> string list" where
  "event_texts ev =
     (case content ev of
        None \<Rightarrow> []
      | Some c \<Rightarrow>
          (case parts c of
             None \<Rightarrow> []
           | Some ps \<Rightarrow>
               concat (map (\<lambda>p. case part_text p of
                                   None \<Rightarrow> []
                                 | Some t \<Rightarrow> if t = [] then [] else [t]) ps)))"

text \<open>
  \<open>str.strip()\<close>.  A \<open>char\<close> stands for the code point of the same number; below
  256 the code points Python counts as whitespace are 9 to 13, 28 to 32, 133 and
  160.
\<close>

definition py_isspace :: "char \<Rightarrow> bool" where
  "py_isspace c =
     (let n = (of_char c :: nat)
      in (9 \<le> n \<and> n \<le> 13) \<or> (28 \<le> n \<and> n \<le> 32) \<or> n = 133 \<or> n = 160)"

definition py_strip :: "string \<Rightarrow> string" where
  "py_strip s = rev (dropWhile py_isspace (rev (dropWhile py_isspace s)))"

record chat_request =
  req_user_id :: string
  req_message :: string

record chat_response =
  resp_user_id :: string
  resp_response :: string

text \<open>
  How the stream of a turn ends: it is exhausted, or it raises.  An exception of
  the class \<open>Exception\<close> and one outside it (\<open>asyncio.CancelledError\<close> when the
  request is cancelled, \<open>KeyboardInterrupt\<close>) are kept apart, each with what
  \<open>str(e)\<close> gives, because \<open>except Exception\<close> catches the first kind only.
\<close>

datatype stream_end = Completed | RaisedException string | RaisedOther string

text \<open>
  \<open>runner.run_async(user_id, session_id, new_message)\<close> is a parameter: it gives
  the events the stream yields and how the stream ends.
\<close>

type_synonym run_async = "string \<Rightarrow> string \<Rightarrow> content \<Rightarrow> event list \<times> stream_end"

text \<open>
  \<open>chat_endpoint(request)\<close>.  The session is resolved before the \<open>try\<close>; the
  \<open>try\<close> covers the loop over the stream only, and its \<open>except Exception\<close>
  lets an exception outside \<open>Exception\<close> pass to the caller.
\<close>

definition chat_endpoint ::
  "'svc create_session \<Rightarrow> run_async \<Rightarrow> chat_request \<Rightarrow> 'svc server_state \<Rightarrow>
   (py_error + chat_response) \<times> 'svc server_state" where
  "chat_endpoint create_session run request st =
     (case get_or_create_session_id create_session (req_user_id request) st of
        (Inl e, st') \<Rightarrow> (Inl e, st')
      | (Inr session_id, st') \<Rightarrow>
          (let user_message = Content (Some ''user'') (Some [Part (Some (req_message request))])
           in case run (req_user_id request) session_id user_message of
                (events, RaisedException e) \<Rightarrow>
                  (Inr \<lparr>resp_user_id = req_user_id request,
                        resp_response = ''Sorry, I encountered an error: '' @ e\<rparr>, st')
              | (events, RaisedOther e) \<Rightarrow> (Inl (NonException e), st')
              | (events, Completed) \<Rightarrow>
                  (let text_parts = concat (map event_texts events);
                       final_text = py_strip (concat text_parts)
                   in (Inr \<lparr>resp_user_id = req_user_id request,
                             resp_response =
                               (if final_text = [] then ''Sorry, I could not generate a response.''
                                else final_text)\<rparr>, st'))))"

section \<open>The knowledge base on disk\<close>

text \<open>
  The files of the \<open>data\<close> directory, by path.  A file is kept as what its readers
  get from it: a serialized vector index (\<open>faiss.read_index\<close> gives the index), a
  JSON text (\<open>json.load\<close> gives the document), or anything else.
\<close>

datatype 'v node =
    Directory
  | IndexFile "'v faiss_index"
  | JsonFile json
  | OtherFile

type_synonym 'v filesystem = "string \<rightharpoonup> 'v node"

text \<open>\<open>os.path.join(a, b)\<close> for two components, on a POSIX system.\<close>

definition os_path_join :: "string \<Rightarrow> string \<Rightarrow> string" where
  "os_path_join a b =
     (if b \<noteq> [] \<and> hd b = CHR ''/'' then b
      else if a = [] \<or> last a = CHR ''/'' then a @ b
      else a @ ''/'' @ b)"

definition KB_DIR :: string where
  "KB_DIR = ''data''"

definition KB_INDEX_PATH :: string where
  "KB_INDEX_PATH = os_path_join KB_DIR ''knowledge_base.faiss''"

definition KB_TEXTS_PATH :: string where
  "KB_TEXTS_PATH = os_path_join KB_DIR ''knowledge_base_texts.json''"

subsection \<open>tools_adk.py: loading at start-up\<close>

text \<open>\<open>faiss.read_index(path)\<close>: raises unless the path is a serialized index.\<close>

definition read_index :: "'v filesystem \<Rightarrow> string \<Rightarrow> py_error + 'v faiss_index" where
  "read_index fs path =
     (case fs path of
        Some (IndexFile ix) \<Rightarrow> Inr ix
      | _ \<Rightarrow> Inl (External ''could not read index''))"

text \<open>\<open>open(path)\<close> and \<open>json.load\<close>: raises unless the path is a JSON text.\<close>

definition json_load :: "'v filesystem \<Rightarrow> string \<Rightarrow> py_error + json" where
  "json_load fs path =
     (case fs path of
        Some (JsonFile j) \<Rightarrow> Inr j
      | _ \<Rightarrow> Inl JSONDecodeError)"

text \<open>
  The module-level code that sets \<open>kb_index\<close> and \<open>kb_texts\<close>.  Both files must
  exist for the knowledge base to be read; otherwise the module starts with
  \<open>new_index\<close>, which stands for \<open>faiss.IndexFlatL2(dim)\<close>, and no texts.
  \<open>kb_texts\<close> becomes whatever document \<open>json.load\<close> returns; the list of
  strings \<open>texts\<close> that \<open>kb_search\<close> works on is the document
  \<open>JArr (map JStr texts)\<close>.
\<close>

definition load_knowledge_base ::
  "'v faiss_index \<Rightarrow> 'v filesystem \<Rightarrow> py_error + ('v faiss_index option \<times> json)" where
  "load_knowledge_base new_index fs =
     (if KB_INDEX_PATH \<in> dom fs \<and> KB_TEXTS_PATH \<in> dom fs then
        (case read_index fs KB_INDEX_PATH of
           Inl e \<Rightarrow> Inl e
         | Inr ix \<Rightarrow>
             (case json_load fs KB_TEXTS_PATH of
                Inl e \<Rightarrow> Inl e
              | Inr kb_texts \<Rightarrow> Inr (Some ix, kb_texts)))
      else Inr (Some new_index, JArr []))"

subsection \<open>build_rag.py: building the store\<close>

definition KNOWLEDGE_BASE_PATH :: string where
  "KNOWLEDGE_BASE_PATH = ''data/knowledge_base.faiss''"

definition USER_PREFS_PATH :: string where
  "USER_PREFS_PATH = ''data/user_prefs.faiss''"

record document =
  doc_content :: string
  doc_source :: string

text \<open>The dicts of \<open>all_chunks\<close>, and the library's \<open>Document\<close> objects made of
  them.\<close>

record chunk =
  chunk_text :: string
  chunk_source :: string

record lc_document =
  page_content :: string
  metadata_source :: string

text \<open>
  The external library enters through three parameters:
  \<open>split_text\<close> is \<open>text_splitter.split_text\<close> of the splitter built with
  \<open>chunk_size=1000\<close> and \<open>chunk_overlap=100\<close>;
  \<open>from_documents\<close> is \<open>FAISS.from_documents\<close>, which embeds the chunks and may
  raise;
  \<open>save_local store path fs\<close> is the file system after
  \<open>vector_store.save_local(path)\<close>.
\<close>

definition create_vector_store ::
  "(string \<Rightarrow> string list) \<Rightarrow> (lc_document list \<Rightarrow> 'emb \<Rightarrow> string + 'store) \<Rightarrow>
   ('store \<Rightarrow> string \<Rightarrow> 'v filesystem \<Rightarrow> 'v filesystem) \<Rightarrow>
   document list \<Rightarrow> 'emb \<Rightarrow> string \<Rightarrow> 'v filesystem \<Rightarrow> py_error option \<times> 'v filesystem" where
  "create_vector_store split_text from_documents save_local documents embeddings_model
     file_path fs =
     (let all_chunks =
            concat (map (\<lambda>doc. map (\<lambda>c. \<lparr>chunk_text = c, chunk_source = doc_source doc\<rparr>)
                                    (split_text (doc_content doc))) documents)
      in if all_chunks = [] then (None, fs)
         else
           (let lc_documents =
                  map (\<lambda>c. \<lparr>page_content = chunk_text c, metadata_source = chunk_source c\<rparr>)
                      all_chunks
            in case from_documents lc_documents embeddings_model of
                 Inl e \<Rightarrow> (Some (External e), fs)
               | Inr vector_store \<Rightarrow> (None, save_local vector_store file_path fs)))"

text \<open>
  \<open>os.makedirs("data", exist_ok=True)\<close>: creates the directory when nothing is
  there, does nothing when a directory is there, raises when a file is there.
\<close>

definition makedirs :: "string \<Rightarrow> 'v filesystem \<Rightarrow> py_error + 'v filesystem" where
  "makedirs path fs =
     (case fs path of
        None \<Rightarrow> Inr (fs(path \<mapsto> Directory))
      | Some Directory \<Rightarrow> Inr fs
      | Some _ \<Rightarrow> Inl (External ''FileExistsError''))"

text \<open>
  \<open>main()\<close>, with the documents of the knowledge base (\<open>generic_travel_data\<close> in
  the source) as the parameter \<open>knowledge_docs\<close>.
\<close>

definition build_main ::
  "(string \<Rightarrow> string list) \<Rightarrow> (lc_document list \<Rightarrow> 'emb \<Rightarrow> string + 'store) \<Rightarrow>
   ('store \<Rightarrow> string \<Rightarrow> 'v filesystem \<Rightarrow> 'v filesystem) \<Rightarrow>
   'emb \<Rightarrow> document list \<Rightarrow> 'v filesystem \<Rightarrow> py_error option \<times> 'v filesystem" where
  "build_main split_text from_documents save_local embeddings knowledge_docs fs =
     (case makedirs ''data'' fs of
        Inl e \<Rightarrow> (Some e, fs)
      | Inr fs1 \<Rightarrow>
          (case create_vector_store split_text from_documents save_local knowledge_docs
                  embeddings KNOWLEDGE_BASE_PATH fs1 of
             (Some e, fs2) \<Rightarrow> (Some e, fs2)
           | (None, fs2) \<Rightarrow>
               create_vector_store split_text from_documents save_local
                 [\<lparr>doc_content = ''This is a placeholder for user preferences.'',
                   doc_source = ''system_init''\<rparr>]
                 embeddings USER_PREFS_PATH fs2))"

text \<open>
  A path lies under a folder when it is the folder or continues it after a
  \<open>/\<close>.  A \<open>save_local\<close> keeps to its folder when it leaves every path that is
  not under the folder as it was.
\<close>

definition under :: "string \<Rightarrow> string \<Rightarrow> bool" where
  "under folder path = (path = folder \<or> prefix (folder @ ''/'') path)"

definition keeps_to_folder ::
  "('store \<Rightarrow> string \<Rightarrow> 'v filesystem \<Rightarrow> 'v filesystem) \<Rightarrow> bool" where
  "keeps_to_folder save_local =
     (\<forall>store folder fs path. \<not> under folder path \<longrightarrow> save_local store folder fs path = fs path)"

text \<open>
  The library's \<open>save_local(folder_path)\<close> as its documentation gives it: the
  folder is created and holds the serialized index as \<open>index.faiss\<close> and the
  pickled document store as \<open>index.pkl\<close>.  Used as the concrete instance.
\<close>

definition folder_save_local ::
  "'v faiss_index \<Rightarrow> string \<Rightarrow> 'v filesystem \<Rightarrow> 'v filesystem" where
  "folder_save_local store folder fs =
     fs(folder \<mapsto> Directory,
        folder @ ''/index.faiss'' \<mapsto> IndexFile store,
        folder @ ''/index.pkl'' \<mapsto> OtherFile)"

section \<open>Concrete instances\<close>

text \<open>A small index of three vectors; the identifier \<open>5\<close> has no text in a list
  of two texts.\<close>

definition demo_index :: "unit faiss_index" where
  "demo_index = \<lparr>ntotal = 3, neighbours = (\<lambda>q. [(1/2, 1), (1, 5), (3/2, 0)])\<rparr>"


text \<open>An environment with both credentials, and five behaviours of the outbound
  call: a response with status 503, a time-out, a response with status 200 whose
  body is not JSON, a response with two items, and a response whose one item
  repeats the query and the address it was asked with.\<close>

definition demo_env :: environ where
  "demo_env = [''CUSTOM_SEARCH_API_KEY'' \<mapsto> ''k'', ''CUSTOM_SEARCH_CX'' \<mapsto> ''c'']"

definition demo_get_503 :: requests_get where
  "demo_get_503 u p t = Inr \<lparr>status_code = 503, resp_text = ''busy'', resp_json = None\<rparr>"

definition demo_get_timeout :: requests_get where
  "demo_get_timeout u p t = Inl ''timed out''"

definition demo_get_html :: requests_get where
  "demo_get_html u p t = Inr \<lparr>status_code = 200, resp_text = ''<html>'', resp_json = None\<rparr>"

definition demo_get_ok :: requests_get where
  "demo_get_ok u p t =
     Inr \<lparr>status_code = 200, resp_text = [],
          resp_json = Some (JObj [(''items'',
            JArr [JObj [(''title'', JStr ''A''), (''link'', JStr ''http://a'')],
                  JObj [(''title'', JStr ''B''), (''snippet'', JStr ''b'')]])])\<rparr>"

definition demo_get_echo :: requests_get where
  "demo_get_echo u p t =
     Inr \<lparr>status_code = 200, resp_text = [],
          resp_json = Some (JObj [(''items'',
            JArr [JObj [(''title'', JStr (p_q p)), (''link'', JStr u)]])])\<rparr>"

text \<open>A session service that counts the sessions it has created, and two
  behaviours of the runner: a turn with two text fragments, the same turn
  ending in an exception, and the same turn cancelled.\<close>

definition demo_create :: "nat create_session" where
  "demo_create n app uid = Inr (''session-'' @ str_nat n, Suc n)"

definition demo_state :: "nat server_state" where
  "demo_state = \<lparr>user_sessions = Map.empty, session_service = 0\<rparr>"

definition demo_events :: "event list" where
  "demo_events =
     [Event (Some (Content (Some ''model'')
        (Some [Part (Some '' Hello ''), Part None, Part (Some ''world '')]))),
      Event None]"

definition demo_run :: run_async where
  "demo_run u s m = (demo_events, Completed)"

definition demo_run_raise :: run_async where
  "demo_run_raise u s m = (demo_events, RaisedException ''quota exceeded'')"

definition demo_run_cancel :: run_async where
  "demo_run_cancel u s m = (demo_events, RaisedOther [])"

text \<open>A build of one short document: a splitter that returns the text as one
  chunk, and an index that holds one vector per chunk.\<close>

definition demo_docs :: "document list" where
  "demo_docs = [\<lparr>doc_content = ''Travel Tips for Foodies'', doc_source = ''foodie_travel_tips.txt''\<rparr>]"

definition demo_split :: "string \<Rightarrow> string list" where
  "demo_split s = [s]"

definition demo_from_documents :: "lc_document list \<Rightarrow> unit \<Rightarrow> string + unit faiss_index" where
  "demo_from_documents docs emb = Inr (demo_index\<lparr>ntotal := length docs\<rparr>)"

section \<open>Knowledge-base search: results\<close>










text \<open>
  Claim C3.  When the index is \<open>None\<close>, or holds no vector, or the text list is
  empty, \<open>kb_search\<close> returns, for every query and every \<open>top_k\<close> and without
  calling the embedding or the search, an empty result list with the message
  \<open>Knowledge base is empty.\<close> under the key \<open>message\<close>; it does not raise.
  The same holds for the knowledge base the module loads when one of its two
  files is absent.
\<close>

theorem kb_search_empty:
  "(kb_index = None \<or> (\<exists>ix. kb_index = Some ix \<and> ntotal ix = 0) \<or> kb_texts = [] \<longrightarrow>
      kb_search embed_text kb_index kb_texts query top_k =
        Inr \<lparr>kb_query = query, kb_results = [],
             kb_message = Some ''Knowledge base is empty.''\<rparr>) \<and>
   (KB_INDEX_PATH \<notin> dom fs \<or> KB_TEXTS_PATH \<notin> dom fs \<longrightarrow>
      (\<exists>ix texts. load_knowledge_base new_index fs = Inr (ix, JArr (map JStr texts)) \<and>
         kb_search embed_text ix texts query top_k =
           Inr \<lparr>kb_query = query, kb_results = [],
                kb_message = Some ''Knowledge base is empty.''\<rparr>))"
proof (intro conjI impI)
  assume "kb_index = None \<or> (\<exists>ix. kb_index = Some ix \<and> ntotal ix = 0) \<or> kb_texts = []"
  then show "kb_search embed_text kb_index kb_texts query top_k =
      Inr \<lparr>kb_query = query, kb_results = [], kb_message = Some ''Knowledge base is empty.''\<rparr>"
    by (auto simp add: kb_search_def split: option.splits)
next
  assume "KB_INDEX_PATH \<notin> dom fs \<or> KB_TEXTS_PATH \<notin> dom fs"
  then have "load_knowledge_base new_index fs = Inr (Some new_index, JArr (map JStr []))"
    by (auto simp add: load_knowledge_base_def)
  moreover have "kb_search embed_text (Some new_index) [] query top_k =
      Inr \<lparr>kb_query = query, kb_results = [], kb_message = Some ''Knowledge base is empty.''\<rparr>"
    by (simp add: kb_search_def)
  ultimately show "\<exists>ix texts. load_knowledge_base new_index fs = Inr (ix, JArr (map JStr texts)) \<and>
      kb_search embed_text ix texts query top_k =
        Inr \<lparr>kb_query = query, kb_results = [], kb_message = Some ''Knowledge base is empty.''\<rparr>"
    by blast
qed

theorem kb_search_empty_witness:
  "kb_search (\<lambda>s. Inr ()) None [''alpha''] ''q'' 3 =
     Inr \<lparr>kb_query = ''q'', kb_results = [], kb_message = Some ''Knowledge base is empty.''\<rparr> \<and>
   kb_search (\<lambda>s. Inr ()) (Some (demo_index\<lparr>ntotal := 0\<rparr>)) [''alpha''] ''q'' 3 =
     Inr \<lparr>kb_query = ''q'', kb_results = [], kb_message = Some ''Knowledge base is empty.''\<rparr> \<and>
   kb_search (\<lambda>s. Inr ()) (Some demo_index) [] ''q'' 3 =
     Inr \<lparr>kb_query = ''q'', kb_results = [], kb_message = Some ''Knowledge base is empty.''\<rparr> \<and>
   (\<exists>ix texts. load_knowledge_base (demo_index\<lparr>ntotal := 0\<rparr>) Map.empty =
        Inr (ix, JArr (map JStr texts)) \<and>
      kb_search (\<lambda>s. Inr ()) ix texts ''q'' 3 =
        Inr \<lparr>kb_query = ''q'', kb_results = [],
             kb_message = Some ''Knowledge base is empty.''\<rparr>)"
proof -
  note a = kb_search_empty [where kb_index = None and kb_texts = "[''alpha'']"
      and embed_text = "\<lambda>s. Inr ()" and query = "''q''" and top_k = 3
      and fs = Map.empty and new_index = "demo_index\<lparr>ntotal := 0\<rparr>"]
  note b = kb_search_empty [where kb_index = "Some (demo_index\<lparr>ntotal := 0\<rparr>)"
      and kb_texts = "[''alpha'']" and embed_text = "\<lambda>s. Inr ()" and query = "''q''"
      and top_k = 3, THEN conjunct1]
  note c = kb_search_empty [where kb_index = "Some demo_index" and kb_texts = "[]"
      and embed_text = "\<lambda>s. Inr ()" and query = "''q''" and top_k = 3, THEN conjunct1]
  from a b c show ?thesis by simp
qed

section \<open>The preference store: results\<close>

lemma stored_prefs_load:
  "stored_prefs f = Some ps \<Longrightarrow> load_preferences f = JArr ps"
  by (auto simp add: stored_prefs_def load_preferences_def read_prefs_def py_get_def
      split: prefs_file.splits json.splits option.splits)

lemma save_preference_stored:
  assumes "stored_prefs f = Some ps"
  shows "save_preference x f =
           (Inr \<lparr>status = ''ok'', saved_preference = x, total_preferences = Suc (length ps)\<rparr>,
            snd (save_preference x f)) \<and>
         stored_prefs (snd (save_preference x f)) = Some (ps @ [JStr x])"
  using assms
  by (auto simp add: stored_prefs_def save_preference_def read_prefs_def write_prefs_def
      py_get_def update_conv' split: prefs_file.splits json.splits option.splits)

lemma save_all_Cons:
  "save_all (x # xs) f =
     (fst (save_preference x f) # fst (save_all xs (snd (save_preference x f))),
      snd (save_all xs (snd (save_preference x f))))"
  by (simp split: prod.splits)

lemma save_all_length: "length (fst (save_all xs f)) = length xs"
  by (induction xs arbitrary: f) (simp_all add: save_all_Cons del: save_all.simps(2))

lemma save_all_stored:
  "stored_prefs f = Some ps \<Longrightarrow>
   stored_prefs (snd (save_all xs f)) = Some (ps @ map JStr xs)"
proof (induction xs arbitrary: f ps)
  case Nil
  then show ?case by simp
next
  case (Cons x xs)
  obtain r f' where step: "save_preference x f = (r, f')"
    by (cases "save_preference x f")
  with Cons.prems have "stored_prefs f' = Some (ps @ [JStr x])"
    using save_preference_stored [of f ps x] by simp
  from Cons.IH [OF this] show ?case
    using step by (simp add: save_all_Cons del: save_all.simps(2))
qed

lemma save_all_nth:
  "stored_prefs f = Some ps \<Longrightarrow> i < length xs \<Longrightarrow>
   fst (save_all xs f) ! i =
     Inr \<lparr>status = ''ok'', saved_preference = xs ! i,
          total_preferences = length ps + i + 1\<rparr>"
proof (induction xs arbitrary: f ps i)
  case Nil
  then show ?case by simp
next
  case (Cons x xs)
  obtain r f' where step: "save_preference x f = (r, f')"
    by (cases "save_preference x f")
  from Cons.prems(1) step
  have r: "r = Inr \<lparr>status = ''ok'', saved_preference = x, total_preferences = Suc (length ps)\<rparr>"
    and st: "stored_prefs f' = Some (ps @ [JStr x])"
    using save_preference_stored [of f ps x] by simp_all
  show ?case
  proof (cases i)
    case 0
    then show ?thesis using step r by (simp add: save_all_Cons del: save_all.simps(2))
  next
    case (Suc j)
    with Cons.prems(2) have "j < length xs" by simp
    from Cons.IH [OF st this] show ?thesis
      using step Suc by (simp add: save_all_Cons del: save_all.simps(2))
  qed
qed

text \<open>
  Claim C4, as amended.  On every store on which \<open>save_preference\<close> does not
  raise (the directory exists, and the file is missing, unreadable, or a dict
  whose \<open>preferences\<close> entry is absent or a list \<open>ps\<close>), \<open>save_preference x\<close>
  returns and \<open>load_preferences\<close> afterwards gives the list \<open>ps\<close> followed by
  \<open>x\<close>, which includes \<open>x\<close>.  Starting from such a store that holds no
  preference, the \<open>n\<close>-th of the calls of \<open>save_preference\<close> made one after the
  other returns the count \<open>n\<close>.
\<close>

theorem save_then_load:
  "(stored_prefs f = Some ps \<longrightarrow>
      (\<exists>r f'. save_preference x f = (Inr r, f') \<and>
               load_preferences f' = JArr (ps @ [JStr x]) \<and>
               JStr x \<in> set (ps @ [JStr x]))) \<and>
   (stored_prefs g = Some [] \<longrightarrow>
      (\<forall>n. 0 < n \<and> n \<le> length xs \<longrightarrow>
         fst (save_all xs g) ! (n - 1) =
           Inr \<lparr>status = ''ok'', saved_preference = xs ! (n - 1), total_preferences = n\<rparr>))"
proof (intro conjI impI allI)
  assume f: "stored_prefs f = Some ps"
  from save_preference_stored [OF f, of x]
  have run: "save_preference x f =
      (Inr \<lparr>status = ''ok'', saved_preference = x, total_preferences = Suc (length ps)\<rparr>,
       snd (save_preference x f))"
    and st: "stored_prefs (snd (save_preference x f)) = Some (ps @ [JStr x])"
    by simp_all
  from stored_prefs_load [OF st] run
  show "\<exists>r f'. save_preference x f = (Inr r, f') \<and>
               load_preferences f' = JArr (ps @ [JStr x]) \<and>
               JStr x \<in> set (ps @ [JStr x])"
    by auto
next
  fix n
  assume g: "stored_prefs g = Some []" and n: "0 < n \<and> n \<le> length xs"
  then have "n - 1 < length xs" by arith
  from save_all_nth [OF g this] n
  show "fst (save_all xs g) ! (n - 1) =
      Inr \<lparr>status = ''ok'', saved_preference = xs ! (n - 1), total_preferences = n\<rparr>"
    by simp
qed

theorem save_then_load_witness:
  "stored_prefs (init_prefs NoFile) = Some [] \<and>
   (\<exists>r f'. save_preference ''vegetarian'' (init_prefs NoFile) = (Inr r, f') \<and>
            load_preferences f' = JArr [JStr ''vegetarian'']) \<and>
   fst (save_all [''vegetarian'', ''museums'', ''window seat''] (init_prefs NoFile)) ! 2 =
     Inr \<lparr>status = ''ok'', saved_preference = ''window seat'', total_preferences = 3\<rparr>"
proof -
  have e: "stored_prefs (init_prefs NoFile) = Some []"
    by (simp add: stored_prefs_def init_prefs_def)
  from save_then_load [of "init_prefs NoFile" "[]" "''vegetarian''" "init_prefs NoFile"
      "[''vegetarian'', ''museums'', ''window seat'']"] e
  have a: "\<exists>r f'. save_preference ''vegetarian'' (init_prefs NoFile) = (Inr r, f') \<and>
            load_preferences f' = JArr [JStr ''vegetarian'']"
    and b: "\<forall>n. 0 < n \<and> n \<le> length [''vegetarian'', ''museums'', ''window seat''] \<longrightarrow>
         fst (save_all [''vegetarian'', ''museums'', ''window seat''] (init_prefs NoFile)) ! (n - 1) =
           Inr \<lparr>status = ''ok'',
                saved_preference = [''vegetarian'', ''museums'', ''window seat''] ! (n - 1),
                total_preferences = n\<rparr>"
    by simp_all
  from b [rule_format, of 3] have "fst (save_all [''vegetarian'', ''museums'', ''window seat''] (init_prefs NoFile)) ! 2 =
     Inr \<lparr>status = ''ok'', saved_preference = ''window seat'', total_preferences = 3\<rparr>"
    by simp
  with e a show ?thesis by blast
qed

text \<open>
  On a document that is valid JSON but not a dict, and when the directory is
  missing, \<open>save_preference\<close> raises and saves nothing: \<open>load_preferences\<close>
  afterwards gives the empty list, which does not include the string.
\<close>

theorem save_then_load_counterexample:
  "save_preference ''x'' (Doc (JArr [])) = (Inl AttributeError, Doc (JArr [])) \<and>
   load_preferences (Doc (JArr [])) = JArr [] \<and>
   save_preference ''x'' NoDir = (Inl FileNotFoundError, NoDir) \<and>
   load_preferences NoDir = JArr []"
  by (simp add: save_preference_def load_preferences_def read_prefs_def write_prefs_def
      py_get_def)

text \<open>
  Claim C8.  \<open>load_preferences\<close> is total: it returns the empty list when the
  file or its directory does not exist, when its text cannot be parsed, and when reading the
  \<open>preferences\<close> key raises; on a dict it returns the stored \<open>preferences\<close>
  entry (the empty list when there is none); and after the strings \<open>xs\<close> were
  saved into an empty store it returns exactly these strings, in order.
\<close>

theorem load_preferences_total:
  "load_preferences NoDir = JArr [] \<and>
   load_preferences NoFile = JArr [] \<and>
   load_preferences Corrupt = JArr [] \<and>
   (py_get data ''preferences'' (JArr []) = Inl e \<longrightarrow> load_preferences (Doc data) = JArr []) \<and>
   load_preferences (Doc (JObj kvs)) =
     (case map_of kvs ''preferences'' of None \<Rightarrow> JArr [] | Some v \<Rightarrow> v) \<and>
   (stored_prefs f = Some [] \<longrightarrow>
      load_preferences (snd (save_all xs f)) = JArr (map JStr xs))"
proof -
  have "stored_prefs f = Some [] \<longrightarrow>
      load_preferences (snd (save_all xs f)) = JArr (map JStr xs)"
    using save_all_stored [of f "[]" xs] stored_prefs_load by auto
  then show ?thesis
    by (simp add: load_preferences_def read_prefs_def py_get_def)
qed

theorem load_preferences_total_witness:
  "load_preferences (Doc (JArr [JStr ''x''])) = JArr [] \<and>
   load_preferences (Doc (JObj [(''preferences'', JArr [JStr ''x''])])) = JArr [JStr ''x''] \<and>
   load_preferences (snd (save_all [''a'', ''b''] NoFile)) = JArr [JStr ''a'', JStr ''b'']"
  using load_preferences_total [of "JArr [JStr ''x'']" AttributeError
      "[(''preferences'', JArr [JStr ''x''])]" NoFile "[''a'', ''b'']"]
  by (simp add: py_get_def stored_prefs_def)

section \<open>Search tools and the weather stub: results\<close>

text \<open>
  Claim C5, as amended.  For \<open>web_search\<close> and \<open>search_flight_price\<close>, in each
  of the failure modes (one of the two credentials unset or empty, the outbound
  call raising, a response whose status is not 200) the call returns a result
  with an empty results list and a non-empty error string; in these modes it
  does not raise.  Here \<open>q\<close> is the query sent: the argument of \<open>web_search\<close>,
  the formatted string of \<open>search_flight_price\<close>.
\<close>

theorem search_failures:
  assumes "api_key = load_dotenv dotenv env ''CUSTOM_SEARCH_API_KEY''"
    and "cx = load_dotenv dotenv env ''CUSTOM_SEARCH_CX''"
    and "py_not api_key \<or> py_not cx \<or>
         (\<exists>e. get search_url \<lparr>p_key = the api_key, p_cx = the cx, p_q = q, p_num = n\<rparr> 10
                 = Inl e) \<or>
         (\<exists>resp. get search_url \<lparr>p_key = the api_key, p_cx = the cx, p_q = q, p_num = n\<rparr> 10
                 = Inr resp \<and> status_code resp \<noteq> 200)"
  shows "(\<exists>r e. web_search dotenv env get q n = Inr r \<and>
                 ws_results r = [] \<and> ws_error r = Some e \<and> e \<noteq> []) \<and>
         (flight_query origin destination dt = q \<longrightarrow>
            (\<exists>r e. search_flight_price dotenv env get origin destination dt n = Inr r \<and>
                    fl_results r = [] \<and> fl_error r = Some e \<and> e \<noteq> []))"
proof (intro conjI impI)
  show "\<exists>r e. web_search dotenv env get q n = Inr r \<and>
                 ws_results r = [] \<and> ws_error r = Some e \<and> e \<noteq> []"
    using assms by (auto simp add: web_search_def Let_def)
next
  assume "flight_query origin destination dt = q"
  then show "\<exists>r e. search_flight_price dotenv env get origin destination dt n = Inr r \<and>
                    fl_results r = [] \<and> fl_error r = Some e \<and> e \<noteq> []"
    using assms by (auto simp add: search_flight_price_def Let_def)
qed

theorem search_failures_witness:
  "web_search Map.empty Map.empty demo_get_ok ''hotels'' 5 =
     Inr \<lparr>ws_query = ''hotels'', ws_results = [],
          ws_error = Some ''Missing CUSTOM_SEARCH_API_KEY or CUSTOM_SEARCH_CX in environment.'',
          ws_source = ''google_custom_search''\<rparr> \<and>
   (\<exists>r e. search_flight_price Map.empty demo_env demo_get_timeout
             ''SFO'' ''NRT'' ''2025-01-01'' 10 = Inr r \<and>
           fl_results r = [] \<and> fl_error r = Some e \<and> e \<noteq> []) \<and>
   (\<exists>r e. web_search Map.empty demo_env demo_get_503 ''hotels'' 5 = Inr r \<and>
           ws_results r = [] \<and> ws_error r = Some e \<and> e \<noteq> [])"
proof -
  have a: "web_search Map.empty Map.empty demo_get_ok ''hotels'' 5 =
     Inr \<lparr>ws_query = ''hotels'', ws_results = [],
          ws_error = Some ''Missing CUSTOM_SEARCH_API_KEY or CUSTOM_SEARCH_CX in environment.'',
          ws_source = ''google_custom_search''\<rparr>"
    by (simp add: web_search_def load_dotenv_def py_not_def Let_def)
  have k: "Some ''k'' = load_dotenv Map.empty demo_env ''CUSTOM_SEARCH_API_KEY''"
    by (simp add: load_dotenv_def demo_env_def)
  have c: "Some ''c'' = load_dotenv Map.empty demo_env ''CUSTOM_SEARCH_CX''"
    by (simp add: load_dotenv_def demo_env_def)
  have t: "py_not (Some ''k'') \<or> py_not (Some ''c'') \<or>
      (\<exists>e. demo_get_timeout search_url
              \<lparr>p_key = the (Some ''k''), p_cx = the (Some ''c''),
               p_q = flight_query ''SFO'' ''NRT'' ''2025-01-01'', p_num = 10\<rparr> 10 = Inl e) \<or>
      (\<exists>resp. demo_get_timeout search_url
              \<lparr>p_key = the (Some ''k''), p_cx = the (Some ''c''),
               p_q = flight_query ''SFO'' ''NRT'' ''2025-01-01'', p_num = 10\<rparr> 10 = Inr resp \<and>
              status_code resp \<noteq> 200)"
    by (simp add: demo_get_timeout_def)
  have u: "py_not (Some ''k'') \<or> py_not (Some ''c'') \<or>
      (\<exists>e. demo_get_503 search_url
              \<lparr>p_key = the (Some ''k''), p_cx = the (Some ''c''),
               p_q = ''hotels'', p_num = 5\<rparr> 10 = Inl e) \<or>
      (\<exists>resp. demo_get_503 search_url
              \<lparr>p_key = the (Some ''k''), p_cx = the (Some ''c''),
               p_q = ''hotels'', p_num = 5\<rparr> 10 = Inr resp \<and>
              status_code resp \<noteq> 200)"
    by (simp add: demo_get_503_def)
  have b: "\<exists>r e. search_flight_price Map.empty demo_env demo_get_timeout
             ''SFO'' ''NRT'' ''2025-01-01'' 10 = Inr r \<and>
           fl_results r = [] \<and> fl_error r = Some e \<and> e \<noteq> []"
    using search_failures [where dotenv = Map.empty and env = demo_env
        and get = demo_get_timeout and api_key = "Some ''k''" and cx = "Some ''c''"
        and q = "flight_query ''SFO'' ''NRT'' ''2025-01-01''" and n = 10
        and origin = "''SFO''" and destination = "''NRT''" and dt = "''2025-01-01''",
        OF k c t]
    by blast
  have d: "\<exists>r e. web_search Map.empty demo_env demo_get_503 ''hotels'' 5 = Inr r \<and>
           ws_results r = [] \<and> ws_error r = Some e \<and> e \<noteq> []"
    using search_failures [where dotenv = Map.empty and env = demo_env
        and get = demo_get_503 and api_key = "Some ''k''" and cx = "Some ''c''"
        and q = "''hotels''" and n = 5, OF k c u]
    by blast
  from a b d show ?thesis by (intro conjI)
qed

text \<open>
  The call can raise: on a response with status 200 whose body is not JSON,
  \<open>resp.json()\<close> raises and nothing catches it, in both functions.
\<close>

theorem search_failures_counterexample:
  "web_search Map.empty demo_env demo_get_html ''hotels'' 5 = Inl JSONDecodeError \<and>
   search_flight_price Map.empty demo_env demo_get_html ''SFO'' ''NRT'' ''2025-01-01'' 10 =
     Inl JSONDecodeError"
  by (simp add: web_search_def search_flight_price_def demo_env_def demo_get_html_def
      load_dotenv_def py_not_def read_items_def Let_def)

text \<open>
  Claim C10.  For every environment, every behaviour of the outbound call and all
  arguments, \<open>search_flight_price\<close> returns the same results list, error and
  source as \<open>web_search\<close> called with the query
  \<open>origin to destination flight date price\<close> (the three arguments joined by
  \<open>" to "\<close> and \<open>" flight "\<close> and followed by \<open>" price"\<close>) and the same
  \<open>max_results\<close>, or raises the same exception; the result of the first carries
  the origin, destination and date it was given, that of the second its query.
\<close>

theorem flight_refines_web:
  "map_sum id flight_common (search_flight_price dotenv env get origin destination dt n) =
   map_sum id web_common
     (web_search dotenv env get (origin @ '' to '' @ destination @ '' flight '' @ dt @ '' price'') n) \<and>
   (\<forall>r. search_flight_price dotenv env get origin destination dt n = Inr r \<longrightarrow>
        fl_origin r = origin \<and> fl_destination r = destination \<and> fl_date r = dt) \<and>
   (\<forall>r. web_search dotenv env get query n = Inr r \<longrightarrow> ws_query r = query)"
  by (auto simp add: search_flight_price_def web_search_def Let_def flight_common_def
      web_common_def flight_query_def split: sum.splits)

theorem flight_refines_web_witness:
  "search_flight_price Map.empty demo_env demo_get_echo ''SFO'' ''NRT'' ''2025-01-01'' 1 =
     Inr \<lparr>fl_origin = ''SFO'', fl_destination = ''NRT'', fl_date = ''2025-01-01'',
          fl_results = [\<lparr>title = JStr ''SFO to NRT flight 2025-01-01 price'',
                         snippet = JStr [],
                         url = JStr ''https://www.googleapis.com/customsearch/v1''\<rparr>],
          fl_error = None, fl_source = ''google_custom_search''\<rparr> \<and>
   map_sum id web_common
     (web_search Map.empty demo_env demo_get_echo ''SFO to NRT flight 2025-01-01 price'' 1) =
     Inr ([\<lparr>title = JStr ''SFO to NRT flight 2025-01-01 price'',
            snippet = JStr [],
            url = JStr ''https://www.googleapis.com/customsearch/v1''\<rparr>], None,
          ''google_custom_search'')"
proof -
  have run: "search_flight_price Map.empty demo_env demo_get_echo ''SFO'' ''NRT'' ''2025-01-01'' 1 =
     Inr \<lparr>fl_origin = ''SFO'', fl_destination = ''NRT'', fl_date = ''2025-01-01'',
          fl_results = [\<lparr>title = JStr ''SFO to NRT flight 2025-01-01 price'',
                         snippet = JStr [],
                         url = JStr ''https://www.googleapis.com/customsearch/v1''\<rparr>],
          fl_error = None, fl_source = ''google_custom_search''\<rparr>"
    by (simp add: search_flight_price_def demo_env_def demo_get_echo_def load_dotenv_def
        py_not_def read_items_def py_get_def slice_items_def py_slice_to_def flight_query_def
        search_url_def Let_def)
  have "map_sum id flight_common
          (search_flight_price Map.empty demo_env demo_get_echo ''SFO'' ''NRT'' ''2025-01-01'' 1) =
        map_sum id web_common
          (web_search Map.empty demo_env demo_get_echo
             (''SFO'' @ '' to '' @ ''NRT'' @ '' flight '' @ ''2025-01-01'' @ '' price'') 1)"
    using flight_refines_web [of Map.empty demo_env demo_get_echo "''SFO''" "''NRT''"
      "''2025-01-01''" 1 "''hotels''"] by (rule conjunct1)
  then have "map_sum id web_common
          (web_search Map.empty demo_env demo_get_echo ''SFO to NRT flight 2025-01-01 price'' 1) =
        Inr (flight_common \<lparr>fl_origin = ''SFO'', fl_destination = ''NRT'', fl_date = ''2025-01-01'',
          fl_results = [\<lparr>title = JStr ''SFO to NRT flight 2025-01-01 price'',
                         snippet = JStr [],
                         url = JStr ''https://www.googleapis.com/customsearch/v1''\<rparr>],
          fl_error = None, fl_source = ''google_custom_search''\<rparr>)"
    unfolding run by simp
  then show ?thesis
    unfolding run by (simp add: flight_common_def)
qed

text \<open>
  Claim C9, as amended.  The forecast fields of the record \<open>get_weather\<close> returns
  (summary, temperature, chance of precipitation, source) are the same constants
  for all inputs; its \<open>location\<close> and \<open>date\<close> fields are the arguments.  So the
  records of two calls differ in these two fields only.
\<close>

theorem get_weather_fields:
  "get_weather loc dt = (get_weather loc' dt') \<lparr>location := loc, date := dt\<rparr> \<and>
   summary (get_weather loc dt) = ''Partly cloudy with mild temperatures.'' \<and>
   temperature_celsius (get_weather loc dt) = 24 \<and>
   precipitation_chance (get_weather loc dt) = 2 / 10 \<and>
   weather_source (get_weather loc dt) = ''mock_weather_service'' \<and>
   location (get_weather loc dt) = loc \<and>
   date (get_weather loc dt) = dt"
  by (simp add: get_weather_def)

text \<open>The record is not the same for all inputs: the location is echoed.\<close>

theorem get_weather_counterexample:
  "get_weather ''Paris'' ''today'' \<noteq> get_weather ''Tokyo'' ''today''"
  by (simp add: get_weather_def)

section \<open>Sessions and the chat endpoint: results\<close>

lemma get_or_create_keeps:
  "user_sessions st uid = Some sid \<Longrightarrow>
   user_sessions (snd (get_or_create_session_id cs u st)) uid = Some sid"
  by (auto simp add: get_or_create_session_id_def split: option.splits sum.splits)

lemma run_requests_keeps:
  "user_sessions st uid = Some sid \<Longrightarrow>
   user_sessions (run_requests cs uids st) uid = Some sid"
proof (induction uids arbitrary: st)
  case Nil
  then show ?case by simp
next
  case (Cons u uids)
  from Cons.prems have "user_sessions (snd (get_or_create_session_id cs u st)) uid = Some sid"
    by (rule get_or_create_keeps)
  from Cons.IH [OF this] show ?case by simp
qed

lemma get_or_create_reuse:
  "user_sessions st uid = Some sid \<Longrightarrow> get_or_create_session_id cs uid st = (Inr sid, st)"
  by (simp add: get_or_create_session_id_def)

text \<open>
  Claim C7.  The session map has at most one entry for a user identifier (it is a
  map).  With the requests served one after the other: the first request of a
  user that has no entry calls \<open>create_session\<close> once, records the identifier
  it gives and returns it; after any further requests \<open>uids\<close> of any users the
  entry is still that identifier, and a request of the same user returns it and
  leaves the state, the session service included, as it was, whatever
  \<open>create_session'\<close> would do: no session is created.
\<close>

theorem one_session_per_user:
  assumes "user_sessions st uid = None"
    and "create_session (session_service st) app_name uid = Inr (sid, svc')"
    and "st1 = st\<lparr>user_sessions := (user_sessions st)(uid \<mapsto> sid), session_service := svc'\<rparr>"
  shows "get_or_create_session_id create_session uid st = (Inr sid, st1) \<and>
         user_sessions (run_requests create_session uids st1) uid = Some sid \<and>
         get_or_create_session_id create_session' uid (run_requests create_session uids st1) =
           (Inr sid, run_requests create_session uids st1)"
proof -
  have first: "get_or_create_session_id create_session uid st = (Inr sid, st1)"
    using assms by (simp add: get_or_create_session_id_def)
  have "user_sessions st1 uid = Some sid"
    using assms(3) by simp
  then have later: "user_sessions (run_requests create_session uids st1) uid = Some sid"
    by (rule run_requests_keeps)
  from first later get_or_create_reuse [OF later] show ?thesis by simp
qed

lemma str_nat_0: "str_nat 0 = ''0''"
  by code_simp

theorem one_session_per_user_witness:
  "fst (get_or_create_session_id demo_create ''alice'' demo_state) = Inr ''session-0'' \<and>
   session_service (snd (get_or_create_session_id demo_create ''alice'' demo_state)) = 1 \<and>
   session_service (run_requests demo_create [''alice'', ''bob'', ''alice'', ''alice''] demo_state) = 2 \<and>
   fst (get_or_create_session_id demo_create ''alice''
          (run_requests demo_create [''alice'', ''bob'', ''alice''] demo_state)) = Inr ''session-0''"
proof -
  let ?st1 = "demo_state\<lparr>user_sessions := (user_sessions demo_state)(''alice'' \<mapsto> ''session-0''),
                         session_service := Suc 0\<rparr>"
  have n: "user_sessions demo_state ''alice'' = None"
    by (simp add: demo_state_def)
  have c: "demo_create (session_service demo_state) app_name ''alice'' = Inr (''session-0'', Suc 0)"
    by (simp add: demo_create_def demo_state_def str_nat_0)
  note inst = one_session_per_user [where create_session = demo_create and create_session' = demo_create
      and uids = "[''bob'', ''alice'']", OF n c refl]
  have step: "run_requests demo_create [''alice'', ''bob'', ''alice''] demo_state =
      run_requests demo_create [''bob'', ''alice''] ?st1"
    using inst by simp
  have a: "fst (get_or_create_session_id demo_create ''alice'' demo_state) = Inr ''session-0''"
    and b: "session_service (snd (get_or_create_session_id demo_create ''alice'' demo_state)) = 1"
    using inst by simp_all
  have d: "fst (get_or_create_session_id demo_create ''alice''
          (run_requests demo_create [''alice'', ''bob'', ''alice''] demo_state)) = Inr ''session-0''"
    unfolding step using inst by simp
  have e: "session_service (run_requests demo_create [''alice'', ''bob'', ''alice'', ''alice''] demo_state) = 2"
    by (simp add: get_or_create_session_id_def demo_create_def demo_state_def)
  from a b e d show ?thesis by (intro conjI)
qed

lemma py_strip_id:
  "s \<noteq> [] \<Longrightarrow> \<not> py_isspace (hd s) \<Longrightarrow> \<not> py_isspace (last s) \<Longrightarrow> py_strip s = s"
proof -
  assume s: "s \<noteq> []" and h: "\<not> py_isspace (hd s)" and l: "\<not> py_isspace (last s)"
  from s h have front: "dropWhile py_isspace s = s"
    by (simp add: dropWhile_eq_self_iff)
  from s l have "dropWhile py_isspace (rev s) = rev s"
    by (simp add: dropWhile_eq_self_iff hd_rev)
  with front show "py_strip s = s"
    by (simp add: py_strip_def)
qed

text \<open>
  Claim C6, as amended.  Once the session is resolved: when the stream is
  exhausted, the reply is the concatenation \<open>t\<close> of the non-empty text
  fragments of the turn with the whitespace at both ends removed, or the fixed
  apology when nothing is left; it is \<open>t\<close> itself when \<open>t\<close> neither starts nor
  ends with whitespace.  When the stream raises an exception of the class
  \<open>Exception\<close>, the exception is caught and the reply is
  \<open>Sorry, I encountered an error: \<close> followed by its message.  An exception
  outside \<open>Exception\<close> is not caught: the endpoint raises it.
\<close>

theorem chat_reply:
  assumes "get_or_create_session_id create_session (req_user_id request) st = (Inr session_id, st')"
    and "run (req_user_id request) session_id
           (Content (Some ''user'') (Some [Part (Some (req_message request))])) = (events, outcome)"
    and "t = concat (concat (map event_texts events))"
  shows "chat_endpoint create_session run request st =
           (case outcome of
              Completed \<Rightarrow>
                (Inr \<lparr>resp_user_id = req_user_id request,
                      resp_response =
                        (if py_strip t = [] then ''Sorry, I could not generate a response.''
                         else py_strip t)\<rparr>, st')
            | RaisedException e \<Rightarrow>
                (Inr \<lparr>resp_user_id = req_user_id request,
                      resp_response = ''Sorry, I encountered an error: '' @ e\<rparr>, st')
            | RaisedOther e \<Rightarrow> (Inl (NonException e), st')) \<and>
         (t \<noteq> [] \<and> \<not> py_isspace (hd t) \<and> \<not> py_isspace (last t) \<longrightarrow> py_strip t = t)"
  using assms by (cases outcome) (simp_all add: chat_endpoint_def Let_def py_strip_id)

lemma demo_texts: "concat (concat (map event_texts demo_events)) = '' Hello world ''"
  by (simp add: demo_events_def event_texts_def)

lemma demo_strip: "py_strip '' Hello world '' = ''Hello world''"
  by (simp add: py_strip_def py_isspace_def)

text \<open>
  With the fragments \<open>" Hello "\<close> and \<open>"world "\<close> the reply is \<open>Hello world\<close>, not
  their concatenation; and a turn that is cancelled makes the endpoint raise.
\<close>

theorem chat_reply_counterexample:
  "fst (chat_endpoint demo_create demo_run \<lparr>req_user_id = ''alice'', req_message = ''hi''\<rparr>
          demo_state) =
     Inr \<lparr>resp_user_id = ''alice'', resp_response = ''Hello world''\<rparr> \<and>
   fst (chat_endpoint demo_create demo_run \<lparr>req_user_id = ''alice'', req_message = ''hi''\<rparr>
          demo_state) \<noteq>
     Inr \<lparr>resp_user_id = ''alice'',
          resp_response = concat (concat (map event_texts demo_events))\<rparr> \<and>
   fst (chat_endpoint demo_create demo_run_cancel \<lparr>req_user_id = ''alice'', req_message = ''hi''\<rparr>
          demo_state) = Inl (NonException [])"
  by (simp add: chat_endpoint_def get_or_create_session_id_def demo_create_def demo_state_def
      demo_run_def demo_run_cancel_def demo_texts demo_strip Let_def)

theorem chat_reply_witness:
  "chat_endpoint demo_create demo_run_raise \<lparr>req_user_id = ''alice'', req_message = ''hi''\<rparr>
          demo_state =
     (Inr \<lparr>resp_user_id = ''alice'',
           resp_response = ''Sorry, I encountered an error: quota exceeded''\<rparr>,
      demo_state\<lparr>user_sessions := (user_sessions demo_state)(''alice'' \<mapsto> ''session-0''),
                 session_service := Suc 0\<rparr>) \<and>
   chat_endpoint demo_create demo_run \<lparr>req_user_id = ''alice'', req_message = ''hi''\<rparr>
          demo_state =
     (Inr \<lparr>resp_user_id = ''alice'', resp_response = ''Hello world''\<rparr>,
      demo_state\<lparr>user_sessions := (user_sessions demo_state)(''alice'' \<mapsto> ''session-0''),
                 session_service := Suc 0\<rparr>)"
proof -
  have s: "get_or_create_session_id demo_create
             (req_user_id \<lparr>req_user_id = ''alice'', req_message = ''hi''\<rparr>) demo_state =
           (Inr ''session-0'',
            demo_state\<lparr>user_sessions := (user_sessions demo_state)(''alice'' \<mapsto> ''session-0''),
                       session_service := Suc 0\<rparr>)"
    by (simp add: get_or_create_session_id_def demo_create_def demo_state_def str_nat_0)
  have r: "demo_run_raise (req_user_id \<lparr>req_user_id = ''alice'', req_message = ''hi''\<rparr>)
             ''session-0''
             (Content (Some ''user'')
                (Some [Part (Some (req_message \<lparr>req_user_id = ''alice'', req_message = ''hi''\<rparr>))])) =
           (demo_events, RaisedException ''quota exceeded'')"
    by (simp add: demo_run_raise_def)
  have c: "demo_run (req_user_id \<lparr>req_user_id = ''alice'', req_message = ''hi''\<rparr>)
             ''session-0''
             (Content (Some ''user'')
                (Some [Part (Some (req_message \<lparr>req_user_id = ''alice'', req_message = ''hi''\<rparr>))])) =
           (demo_events, Completed)"
    by (simp add: demo_run_def)
  from chat_reply [where run = demo_run_raise, OF s r refl]
    chat_reply [where run = demo_run, OF s c refl]
  show ?thesis
    by (simp add: demo_texts demo_strip)
qed

section \<open>Building and loading the knowledge base: results\<close>

lemma texts_path: "KB_TEXTS_PATH = ''data/knowledge_base_texts.json''"
  by (simp add: KB_TEXTS_PATH_def KB_DIR_def os_path_join_def)

lemma index_path: "KB_INDEX_PATH = KNOWLEDGE_BASE_PATH"
  by (simp add: KB_INDEX_PATH_def KB_DIR_def os_path_join_def KNOWLEDGE_BASE_PATH_def)

lemma texts_not_under:
  "\<not> under KNOWLEDGE_BASE_PATH KB_TEXTS_PATH" "\<not> under USER_PREFS_PATH KB_TEXTS_PATH"
  by (simp_all add: under_def texts_path KNOWLEDGE_BASE_PATH_def USER_PREFS_PATH_def)

lemma create_vector_store_frame:
  assumes "keeps_to_folder save_local" and "\<not> under file_path p"
  shows "snd (create_vector_store split_text from_documents save_local documents emb
                file_path fs) p = fs p"
  using assms
  by (auto simp add: create_vector_store_def keeps_to_folder_def Let_def split: sum.splits)

lemma makedirs_frame: "makedirs d fs = Inr fs1 \<Longrightarrow> p \<noteq> d \<Longrightarrow> fs1 p = fs p"
  by (auto simp add: makedirs_def split: option.splits node.splits)

lemma build_main_texts:
  assumes "keeps_to_folder save_local" and "fs KB_TEXTS_PATH = None"
  shows "snd (build_main split_text from_documents save_local emb docs fs) KB_TEXTS_PATH = None"
proof (cases "makedirs ''data'' fs")
  case (Inl e)
  then show ?thesis using assms(2) by (simp add: build_main_def)
next
  case (Inr fs1)
  then have one: "fs1 KB_TEXTS_PATH = None"
    using makedirs_frame [OF Inr, of KB_TEXTS_PATH] assms(2) by (simp add: texts_path)
  obtain r fs2 where kb: "create_vector_store split_text from_documents save_local docs emb
      KNOWLEDGE_BASE_PATH fs1 = (r, fs2)"
    by (cases "create_vector_store split_text from_documents save_local docs emb
      KNOWLEDGE_BASE_PATH fs1")
  have two: "fs2 KB_TEXTS_PATH = None"
    using create_vector_store_frame [OF assms(1) texts_not_under(1), of split_text
        from_documents docs emb fs1] kb one by simp
  show ?thesis
  proof (cases r)
    case None
    then show ?thesis
      using Inr kb two create_vector_store_frame [OF assms(1) texts_not_under(2), of split_text
          from_documents _ emb fs2]
      by (simp add: build_main_def)
  next
    case (Some e)
    then show ?thesis using Inr kb two by (simp add: build_main_def)
  qed
qed

lemma folder_save_local_keeps: "keeps_to_folder folder_save_local"
  by (auto simp add: keeps_to_folder_def folder_save_local_def under_def)

text \<open>
  Claim C2.  The claim says that the build persists the index and the chunk
  texts at the paths the tool layer loads from.  On the code the build writes
  only through \<open>save_local\<close>, under the folders \<open>data/knowledge_base.faiss\<close> and
  \<open>data/user_prefs.faiss\<close>, and never the file of chunk texts
  \<open>data/knowledge_base_texts.json\<close>.  So for every \<open>save_local\<close> that keeps to
  its folder and every \<open>data\<close> directory without that file, after the build the
  file is still missing, the tool layer starts with the fresh index and no
  texts, and \<open>kb_search\<close> answers that the knowledge base is empty.
\<close>

theorem build_not_served:
  assumes "keeps_to_folder save_local"
    and "fs KB_TEXTS_PATH = None"
    and "build_main split_text from_documents save_local embeddings docs fs = (outcome, fs')"
  shows "fs' KB_TEXTS_PATH = None \<and>
         load_knowledge_base new_index fs' = Inr (Some new_index, JArr []) \<and>
         kb_search embed_text (Some new_index) [] query top_k =
           Inr \<lparr>kb_query = query, kb_results = [],
                kb_message = Some ''Knowledge base is empty.''\<rparr>"
proof -
  have "fs' KB_TEXTS_PATH = None"
    using build_main_texts [where fs = fs and save_local = save_local
        and split_text = split_text and from_documents = from_documents
        and emb = embeddings and docs = docs, OF assms(1,2)] assms(3)
    by simp
  then show ?thesis
    by (simp add: load_knowledge_base_def kb_search_def dom_def)
qed

theorem build_not_served_witness:
  "fst (build_main demo_split demo_from_documents folder_save_local () demo_docs Map.empty) = None \<and>
   snd (build_main demo_split demo_from_documents folder_save_local () demo_docs Map.empty)
     KB_INDEX_PATH = Some Directory \<and>
   snd (build_main demo_split demo_from_documents folder_save_local () demo_docs Map.empty)
     ''data/knowledge_base.faiss/index.faiss'' = Some (IndexFile (demo_index\<lparr>ntotal := 1\<rparr>)) \<and>
   snd (build_main demo_split demo_from_documents folder_save_local () demo_docs Map.empty)
     KB_TEXTS_PATH = None \<and>
   load_knowledge_base (demo_index\<lparr>ntotal := 0\<rparr>)
     (snd (build_main demo_split demo_from_documents folder_save_local () demo_docs Map.empty)) =
     Inr (Some (demo_index\<lparr>ntotal := 0\<rparr>), JArr [])"
proof -
  let ?b = "build_main demo_split demo_from_documents folder_save_local () demo_docs Map.empty"
  have e: "(Map.empty :: unit filesystem) KB_TEXTS_PATH = None"
    by simp
  have p: "?b = (fst ?b, snd ?b)"
    by simp
  note inst = build_not_served [where new_index = "demo_index\<lparr>ntotal := 0\<rparr>"
      and fs = Map.empty and save_local = folder_save_local and split_text = demo_split
      and from_documents = demo_from_documents and embeddings = "()" and docs = demo_docs
      and embed_text = "\<lambda>s. Inr ()" and query = "''q''" and top_k = 3,
      OF folder_save_local_keeps e p]
  have a: "fst ?b = None"
    by (simp add: build_main_def makedirs_def create_vector_store_def demo_split_def
        demo_from_documents_def demo_docs_def Let_def)
  have b: "snd ?b KB_INDEX_PATH = Some Directory"
    by (simp add: build_main_def makedirs_def create_vector_store_def demo_split_def
        demo_from_documents_def demo_docs_def folder_save_local_def index_path
        KNOWLEDGE_BASE_PATH_def USER_PREFS_PATH_def Let_def)
  have c: "snd ?b ''data/knowledge_base.faiss/index.faiss'' =
      Some (IndexFile (demo_index\<lparr>ntotal := 1\<rparr>))"
    by (simp add: build_main_def makedirs_def create_vector_store_def demo_split_def
        demo_from_documents_def demo_docs_def folder_save_local_def
        KNOWLEDGE_BASE_PATH_def USER_PREFS_PATH_def Let_def)
  from a b c inst show ?thesis by blast
qed

end
